theory Spec2Isabelle
  imports Complex_Main "HOL-Library.Word"
begin

section \<open>The chat consumer of \<^verbatim>\<open>consumers.py\<close>\<close>

text \<open>
  \<^verbatim>\<open>ChatConsumer\<close> is a websocket consumer: \<^verbatim>\<open>connect\<close> creates a temporary
  audio file and joins a room group, \<^verbatim>\<open>receive\<close> handles one inbound frame,
  \<^verbatim>\<open>chat_message\<close> relays a group message to the client, \<^verbatim>\<open>disconnect\<close>
  removes the file and leaves the group.  The model passes the world (the file system,
  the channel layer's groups and the log of what the consumer did) explicitly; the
  libraries the code calls (\<^verbatim>\<open>json.loads\<close> and the two OpenAI calls) are fields of an
  environment.
\<close>

subsection \<open>Data\<close>

type_synonym byte = "8 word"
type_synonym bytes = "byte list"

text \<open>
  What \<^verbatim>\<open>json.loads\<close> returns: \<^verbatim>\<open>None\<close>, a bool, an int, a float, a str, a
  list or a dict.  A dict is a list of pairs read with \<open>map_of\<close>.  A Python str is a
  \<open>string\<close>, each character a code point below 256.
\<close>

datatype json =
    JNull
  | JBool bool
  | JInt int
  | JFloat real
  | JStr string
  | JArray "json list"
  | JObject "(string \<times> json) list"

text \<open>
  Exceptions, each with the text \<^verbatim>\<open>str(e)\<close> gives.  \<open>OtherException\<close> carries the
  class name as well: it stands for whatever subclass of \<^verbatim>\<open>Exception\<close> a library
  raises.
\<close>

datatype error =
    AttributeError string
  | FileNotFoundError string
  | JSONDecodeError string
  | OtherException string string

fun str :: "error \<Rightarrow> string" where
  "str (AttributeError m) = m"
| "str (FileNotFoundError m) = m"
| "str (JSONDecodeError m) = m"
| "str (OtherException c m) = m"

text \<open>
  What the consumer does, in order.  An outbound text frame is always
  \<^verbatim>\<open>json.dumps({"message": m})\<close> and is recorded by its \<open>m\<close>.
  \<^item> \<open>Accept c\<close>: \<^verbatim>\<open>self.accept()\<close> on the connection of channel \<open>c\<close>;
  \<^item> \<open>Send c m\<close>: \<^verbatim>\<open>self.send(text_data=json.dumps({"message": m}))\<close> by the consumer
    of channel \<open>c\<close>, a frame to that connection only;
  \<^item> \<open>GroupSend g m\<close>:
    \<^verbatim>\<open>channel_layer.group_send(g, {'type': 'chat_message', 'message': m})\<close>;
  \<^item> \<open>Transcribe b\<close>: \<^verbatim>\<open>openai.Audio.transcribe("whisper-1", f)\<close> on a file whose
    contents are \<open>b\<close>;
  \<^item> \<open>ChatCompletion t\<close>: \<^verbatim>\<open>openai.ChatCompletion.create\<close> with the user content \<open>t\<close>.
\<close>

datatype event =
    Accept string
  | Send string string
  | GroupSend string string
  | Transcribe bytes
  | ChatCompletion json

record world =
  files :: "string \<rightharpoonup> bytes"
  groups :: "string \<Rightarrow> string set"
  trace :: "event list"

text \<open>
  The libraries.  \<open>api_key\<close> is \<^verbatim>\<open>openai.api_key\<close>.  The two OpenAI calls take the
  number of events logged so far, so that the same request may be answered differently
  at different times.  \<open>audio_transcribe\<close> stands for
  \<^verbatim>\<open>openai.Audio.transcribe("whisper-1", audio_file).get('text', '')\<close> and
  \<open>chat_completion\<close> for
  \<^verbatim>\<open>openai.ChatCompletion.create(...)['choices'][0]['message']['content']\<close>: the
  string the code then strips, or the exception raised on the way, which the enclosing
  \<^verbatim>\<open>try\<close> catches.
\<close>

record env =
  api_key :: "string option"
  json_loads :: "string \<Rightarrow> error + json"
  audio_transcribe :: "nat \<Rightarrow> bytes \<Rightarrow> error + string"
  chat_completion :: "nat \<Rightarrow> json \<Rightarrow> error + string"

record consumer =
  room_name :: string
  room_group_name :: string
  channel_name :: string
  audio_path :: string

subsection \<open>Python primitives\<close>

text \<open>\<^verbatim>\<open>str.isspace\<close> on the code points below 256, and \<^verbatim>\<open>str.strip()\<close>.\<close>

definition isspace :: "char \<Rightarrow> bool" where
  "isspace c = ((of_char c :: nat) \<in> {9, 10, 11, 12, 13, 28, 29, 30, 31, 32, 133, 160})"

definition strip :: "string \<Rightarrow> string" where
  "strip s = rev (dropWhile isspace (rev (dropWhile isspace s)))"

text \<open>The name of a value's type, as it appears in an \<^verbatim>\<open>AttributeError\<close>.\<close>

fun type_name :: "json \<Rightarrow> string" where
  "type_name JNull = ''NoneType''"
| "type_name (JBool b) = ''bool''"
| "type_name (JInt i) = ''int''"
| "type_name (JFloat r) = ''float''"
| "type_name (JStr s) = ''str''"
| "type_name (JArray xs) = ''list''"
| "type_name (JObject kvs) = ''dict''"

text \<open>\<^verbatim>\<open>not openai.api_key\<close>: the key is \<^verbatim>\<open>None\<close> or the empty string.\<close>

definition key_missing :: "env \<Rightarrow> bool" where
  "key_missing e = (api_key e = None \<or> api_key e = Some [])"

text \<open>\<^verbatim>\<open>open(path, 'ab')\<close> and \<^verbatim>\<open>f.write(data)\<close>: the file is created when missing.\<close>

definition append_file :: "string \<Rightarrow> bytes \<Rightarrow> (string \<rightharpoonup> bytes) \<Rightarrow> (string \<rightharpoonup> bytes)" where
  "append_file path data fs =
     fs(path \<mapsto> (case fs path of None \<Rightarrow> [] | Some old \<Rightarrow> old) @ data)"

text \<open>\<^verbatim>\<open>open(path, 'rb')\<close> and reading the whole file.\<close>

definition read_file :: "string \<Rightarrow> (string \<rightharpoonup> bytes) \<Rightarrow> error + bytes" where
  "read_file path fs =
     (case fs path of
        None \<Rightarrow> Inl (FileNotFoundError
                 (''[Errno 2] No such file or directory: '' @ [CHR 0x27] @ path @ [CHR 0x27]))
      | Some b \<Rightarrow> Inr b)"

definition emit :: "event \<Rightarrow> world \<Rightarrow> world" where
  "emit ev w = w\<lparr>trace := trace w @ [ev]\<rparr>"

subsection \<open>The consumer\<close>

text \<open>
  \<^verbatim>\<open>connect\<close>: the room name comes from the URL route, the channel name from the
  channel layer, the path from \<^verbatim>\<open>tempfile.NamedTemporaryFile\<close>, which creates the
  file empty.
\<close>

definition connect :: "string \<Rightarrow> string \<Rightarrow> string \<Rightarrow> world \<Rightarrow> consumer \<times> world" where
  "connect room chan path w =
     (let self = \<lparr>room_name = room, room_group_name = ''chat_'' @ room,
                  channel_name = chan, audio_path = path\<rparr>;
          w1 = w\<lparr>files := (files w)(path \<mapsto> [])\<rparr>;
          w2 = w1\<lparr>groups := (groups w1)(room_group_name self :=
                    insert chan (groups w1 (room_group_name self)))\<rparr>;
          w3 = emit (Accept chan) w2
      in (self, emit (Send chan (''Connected to room '' @ room)) w3))"

text \<open>\<^verbatim>\<open>disconnect\<close>: \<^verbatim>\<open>os.remove\<close> with its failure swallowed, then \<^verbatim>\<open>group_discard\<close>.\<close>

definition disconnect :: "consumer \<Rightarrow> world \<Rightarrow> world" where
  "disconnect self w =
     (let w1 = w\<lparr>files := (files w)(audio_path self := None)\<rparr>
      in w1\<lparr>groups := (groups w1)(room_group_name self :=
                groups w1 (room_group_name self) - {channel_name self})\<rparr>)"

text \<open>\<^verbatim>\<open>chat_message\<close>: the handler a member of the group runs on a group message.\<close>

definition chat_message :: "consumer \<Rightarrow> string \<Rightarrow> world \<Rightarrow> world" where
  "chat_message self message w = emit (Send (channel_name self) message) w"

text \<open>
  \<^verbatim>\<open>get_ai_correction\<close>: the stripped answer, or \<^verbatim>\<open>"AI error: " + str(e)\<close>.
\<close>

definition get_ai_correction :: "env \<Rightarrow> json \<Rightarrow> world \<Rightarrow> string \<times> world" where
  "get_ai_correction e text w =
     (case chat_completion e (length (trace w)) text of
        Inr content \<Rightarrow> (strip content, emit (ChatCompletion text) w)
      | Inl ex \<Rightarrow> (''AI error: '' @ str ex, emit (ChatCompletion text) w))"

text \<open>
  \<^verbatim>\<open>receive(text_data, bytes_data)\<close>.  The only exception that leaves it is the
  \<^verbatim>\<open>AttributeError\<close> of \<^verbatim>\<open>data.get\<close> on a value that is not a dict; nothing has
  been done by then, so the world at an \<open>Inl\<close> is the one passed in.
\<close>

definition receive ::
  "env \<Rightarrow> consumer \<Rightarrow> string option \<Rightarrow> bytes option \<Rightarrow> world \<Rightarrow> error + world" where
  "receive e self text_data bytes_data w =
     (case bytes_data of
        Some (b # bs) \<Rightarrow>
          Inr (w\<lparr>files := append_file (audio_path self) (b # bs) (files w)\<rparr>)
      | _ \<Rightarrow>
       (case text_data of
          Some (c # cs) \<Rightarrow>
            (case json_loads e (c # cs) of
               Inl ex \<Rightarrow> Inr w
             | Inr data \<Rightarrow>
                (case data of
                   JObject kvs \<Rightarrow>
                     if map_of kvs ''action'' = Some (JStr ''finalize_audio'') then
                       if key_missing e then
                         Inr (emit (Send (channel_name self)
                                ''OpenAI key not configured on server.'') w)
                       else
                         let (user_text, w1) =
                           (case read_file (audio_path self) (files w) of
                              Inl ex \<Rightarrow>
                                ([], emit (Send (channel_name self)
                                       (''Transcription error: '' @ str ex)) w)
                            | Inr audio \<Rightarrow>
                               (case audio_transcribe e (length (trace w)) audio of
                                  Inl ex \<Rightarrow>
                                    ([], emit (Send (channel_name self)
                                           (''Transcription error: '' @ str ex))
                                           (emit (Transcribe audio) w))
                                | Inr text \<Rightarrow> (strip text, emit (Transcribe audio) w)))
                         in if user_text \<noteq> [] then
                              let (ai_response, w2) = get_ai_correction e (JStr user_text) w1
                              in Inr (emit (GroupSend (room_group_name self)
                                       (''User (transcribed): '' @ user_text @ [CHR 0x0A]
                                          @ ''AI correction: '' @ ai_response)) w2)
                            else Inr w1
                     else
                      (case map_of kvs ''message'' of
                         Some user_message \<Rightarrow>
                           let (ai_response, w1) = get_ai_correction e user_message w
                           in Inr (emit (GroupSend (room_group_name self) ai_response) w1)
                       | None \<Rightarrow> Inr w)
                 | _ \<Rightarrow>
                     Inl (AttributeError ([CHR 0x27] @ type_name data @ [CHR 0x27]
                            @ '' object has no attribute '' @ [CHR 0x27] @ ''get'' @ [CHR 0x27]))))
        | _ \<Rightarrow> Inr w))"

text \<open>
  The frames of a connection.  The websocket layer calls \<^verbatim>\<open>receive\<close> with
  \<^verbatim>\<open>text_data\<close> for a text frame and with \<^verbatim>\<open>bytes_data\<close> for a binary one; an
  exception ends the connection's run.
\<close>

datatype frame = TextFrame string | BinaryFrame bytes

fun websocket_receive :: "env \<Rightarrow> consumer \<Rightarrow> frame \<Rightarrow> world \<Rightarrow> error + world" where
  "websocket_receive e self (TextFrame t) w = receive e self (Some t) None w"
| "websocket_receive e self (BinaryFrame b) w = receive e self None (Some b) w"

fun run :: "env \<Rightarrow> consumer \<Rightarrow> frame list \<Rightarrow> world \<Rightarrow> error + world" where
  "run e self [] w = Inr w"
| "run e self (f # fs) w =
     (case websocket_receive e self f w of
        Inl ex \<Rightarrow> Inl ex
      | Inr w' \<Rightarrow> run e self fs w')"

subsection \<open>Delivery\<close>

text \<open>
  The frames an event puts on the connection of channel \<open>c\<close>.  \<^verbatim>\<open>self.send\<close> reaches
  the sender's own connection.  \<^verbatim>\<open>group_send\<close> hands the message to every channel that
  is in the group, the sender's included, and each consumer there runs
  \<^verbatim>\<open>chat_message\<close>, which sends the message on.  A call to OpenAI puts no frame
  anywhere.
\<close>

fun delivered :: "world \<Rightarrow> string \<Rightarrow> event \<Rightarrow> string list" where
  "delivered w c (Send c' m) = (if c = c' then [m] else [])"
| "delivered w c (GroupSend g m) = (if c \<in> groups w g then [m] else [])"
| "delivered w c (Accept c') = []"
| "delivered w c (Transcribe b) = []"
| "delivered w c (ChatCompletion t) = []"

definition frames_to :: "world \<Rightarrow> string \<Rightarrow> event list \<Rightarrow> string list" where
  "frames_to w c evs = concat (map (delivered w c) evs)"

subsection \<open>Reading a run\<close>

text \<open>The binary chunks among the frames, in arrival order.\<close>

fun binary_chunks :: "frame list \<Rightarrow> bytes list" where
  "binary_chunks [] = []"
| "binary_chunks (BinaryFrame b # fs) = b # binary_chunks fs"
| "binary_chunks (TextFrame t # fs) = binary_chunks fs"

text \<open>The byte sequences handed to the transcription call, in order.\<close>

fun transcribed :: "event list \<Rightarrow> bytes list" where
  "transcribed [] = []"
| "transcribed (Transcribe b # evs) = b # transcribed evs"
| "transcribed (ev # evs) = transcribed evs"

text \<open>The events a step added to the log.\<close>

definition new_events :: "world \<Rightarrow> world \<Rightarrow> event list" where
  "new_events w w' = drop (length (trace w)) (trace w')"

subsection \<open>A room for the examples\<close>

text \<open>
  Two connections in the room \<^verbatim>\<open>lobby\<close>, and the text frames the examples send.
  \<open>loads_table\<close> is \<^verbatim>\<open>json.loads\<close> on these texts.  It reports every other text as
  not JSON, as \<^verbatim>\<open>json.loads\<close> does for \<open>garbage_text\<close>, the only other text the
  examples send.
\<close>

definition finalize_text :: string where
  \<open>finalize_text = ''{"action": "finalize_audio"}''\<close>

definition message_text :: string where
  \<open>message_text = ''{"message": "hi"}''\<close>

definition both_text :: string where
  \<open>both_text = ''{"action": "finalize_audio", "message": "hi"}''\<close>

definition ping_text :: string where
  \<open>ping_text = ''{"ping": 1}''\<close>

definition list_text :: string where
  \<open>list_text = ''[]''\<close>

definition garbage_text :: string where
  \<open>garbage_text = ''not json''\<close>

definition loads_table :: "string \<Rightarrow> error + json" where
  "loads_table s =
     (if s = finalize_text then Inr (JObject [(''action'', JStr ''finalize_audio'')])
      else if s = message_text then Inr (JObject [(''message'', JStr ''hi'')])
      else if s = both_text then
        Inr (JObject [(''action'', JStr ''finalize_audio''), (''message'', JStr ''hi'')])
      else if s = ping_text then Inr (JObject [(''ping'', JInt 1)])
      else if s = list_text then Inr (JArray [])
      else Inl (JSONDecodeError ''Expecting value: line 1 column 1 (char 0)''))"

definition demo_env :: env where
  "demo_env =
     \<lparr>api_key = Some ''sk-demo'',
      json_loads = loads_table,
      audio_transcribe = (\<lambda>n audio. Inr '' hello there ''),
      chat_completion = (\<lambda>n text. Inr ''Hello there!'')\<rparr>"

definition timeout_env :: env where
  "timeout_env =
     demo_env\<lparr>audio_transcribe := (\<lambda>n audio. Inl (OtherException ''Timeout'' ''timeout''))\<rparr>"

definition overloaded_env :: env where
  "overloaded_env =
     demo_env\<lparr>chat_completion := (\<lambda>n text. Inl (OtherException ''RateLimitError'' ''overloaded''))\<rparr>"

definition silence_env :: env where
  "silence_env = demo_env\<lparr>audio_transcribe := (\<lambda>n audio. Inr ''  '')\<rparr>"

definition keyless_env :: env where
  "keyless_env =
     demo_env\<lparr>api_key := None,
       chat_completion :=
         (\<lambda>n text. Inl (OtherException ''AuthenticationError'' ''No API key provided.''))\<rparr>"

definition empty_world :: world where
  "empty_world = \<lparr>files = Map.empty, groups = (\<lambda>g. {}), trace = []\<rparr>"

definition bob_alone :: world where
  "bob_alone = snd (connect ''lobby'' ''chan.bob'' ''/tmp/bob.webm'' empty_world)"

definition alice :: consumer where
  "alice = fst (connect ''lobby'' ''chan.alice'' ''/tmp/alice.webm'' bob_alone)"

definition lobby :: world where
  "lobby = snd (connect ''lobby'' ''chan.alice'' ''/tmp/alice.webm'' bob_alone)"

text \<open>The lobby once alice has sent four bytes of audio.\<close>

definition recording :: world where
  "recording = lobby\<lparr>files := (files lobby)(''/tmp/alice.webm'' \<mapsto> [26, 69, 223, 163])\<rparr>"

text \<open>The log of a run, when no exception ended it.\<close>

fun trace_of :: "error + world \<Rightarrow> event list option" where
  "trace_of (Inl ex) = None"
| "trace_of (Inr w) = Some (trace w)"

section \<open>Properties\<close>

subsection \<open>Facts about the example room\<close>

lemmas texts = finalize_text_def message_text_def both_text_def ping_text_def list_text_def

lemma texts_nonempty:
  "finalize_text \<noteq> []" "message_text \<noteq> []" "both_text \<noteq> []" "ping_text \<noteq> []"
  "list_text \<noteq> []"
  by (simp_all add: texts)

lemma loads_table_simps:
  "loads_table finalize_text = Inr (JObject [(''action'', JStr ''finalize_audio'')])"
  "loads_table message_text = Inr (JObject [(''message'', JStr ''hi'')])"
  "loads_table both_text =
     Inr (JObject [(''action'', JStr ''finalize_audio''), (''message'', JStr ''hi'')])"
  "loads_table ping_text = Inr (JObject [(''ping'', JInt 1)])"
  "loads_table list_text = Inr (JArray [])"
  by (simp_all add: loads_table_def texts)

lemma env_simps:
  "api_key demo_env = Some ''sk-demo''" "json_loads demo_env = loads_table"
  "audio_transcribe demo_env n audio = Inr '' hello there ''"
  "chat_completion demo_env n text = Inr ''Hello there!''"
  "api_key timeout_env = Some ''sk-demo''" "json_loads timeout_env = loads_table"
  "audio_transcribe timeout_env n audio = Inl (OtherException ''Timeout'' ''timeout'')"
  "chat_completion timeout_env n text = Inr ''Hello there!''"
  "api_key overloaded_env = Some ''sk-demo''" "json_loads overloaded_env = loads_table"
  "audio_transcribe overloaded_env n audio = Inr '' hello there ''"
  "chat_completion overloaded_env n text = Inl (OtherException ''RateLimitError'' ''overloaded'')"
  "api_key silence_env = Some ''sk-demo''" "json_loads silence_env = loads_table"
  "audio_transcribe silence_env n audio = Inr ''  ''"
  "api_key keyless_env = None" "json_loads keyless_env = loads_table"
  "chat_completion keyless_env n text =
     Inl (OtherException ''AuthenticationError'' ''No API key provided.'')"
  by (simp_all add: demo_env_def timeout_env_def overloaded_env_def silence_env_def
      keyless_env_def)

lemma strip_examples:
  "strip '' hello there '' = ''hello there''" "strip ''Hello there!'' = ''Hello there!''"
  "strip ''  '' = []"
  by (simp_all add: strip_def isspace_def)

lemma alice_simps:
  "room_name alice = ''lobby''" "room_group_name alice = ''chat_lobby''"
  "channel_name alice = ''chan.alice''" "audio_path alice = ''/tmp/alice.webm''"
  by (simp_all add: alice_def connect_def Let_def)

lemma lobby_simps:
  "files lobby ''/tmp/alice.webm'' = Some []"
  "groups lobby ''chat_lobby'' = {''chan.alice'', ''chan.bob''}"
  "trace lobby = [Accept ''chan.bob'', Send ''chan.bob'' ''Connected to room lobby'',
                  Accept ''chan.alice'', Send ''chan.alice'' ''Connected to room lobby'']"
  by (auto simp add: lobby_def bob_alone_def connect_def Let_def emit_def empty_world_def)

lemma connect_alice:
  "connect ''lobby'' ''chan.alice'' ''/tmp/alice.webm'' bob_alone = (alice, lobby)"
  by (simp add: alice_def lobby_def)

lemma recording_simps:
  "files recording ''/tmp/alice.webm'' = Some [26, 69, 223, 163]"
  "groups recording = groups lobby"
  "trace recording = trace lobby"
  by (simp_all add: recording_def)

subsection \<open>Delivery of a group message\<close>

text \<open>
  The frame \<open>delivered\<close> gives a member for a group message is the one its
  \<^verbatim>\<open>chat_message\<close> handler sends.
\<close>

lemma chat_message_delivers:
  assumes "channel_name member \<in> groups w g"
  shows "new_events w (chat_message member m w) = [Send (channel_name member) m]"
    and "frames_to w (channel_name member) (new_events w (chat_message member m w)) =
           delivered w (channel_name member) (GroupSend g m)"
  using assms by (simp_all add: chat_message_def emit_def new_events_def frames_to_def)

subsection \<open>The audio buffer\<close>

text \<open>A text frame changes neither the files nor the groups.\<close>

lemma receive_text_frame:
  assumes "receive e self (Some t) None w = Inr w'"
  shows "files w' = files w \<and> groups w' = groups w"
  using assms
  by (cases t)
     (auto simp: receive_def get_ai_correction_def emit_def
        split: sum.splits json.splits if_splits option.splits prod.splits)

text \<open>A binary frame appends its bytes; an empty one does nothing.\<close>

lemma receive_binary_frame:
  "receive e self None (Some b) w =
     Inr (if b = [] then w else w\<lparr>files := append_file (audio_path self) b (files w)\<rparr>)"
  by (cases b) (simp_all add: receive_def)

lemma websocket_receive_buffer:
  assumes "websocket_receive e self f w = Inr w'"
    and "files w (audio_path self) = Some a"
  shows "files w' (audio_path self) = Some (a @ concat (binary_chunks [f]))"
proof (cases f)
  case (TextFrame t)
  with assms show ?thesis using receive_text_frame [of e self t w w'] by simp
next
  case (BinaryFrame b)
  with assms show ?thesis
    by (auto simp: receive_binary_frame append_file_def split: if_splits)
qed

lemma binary_chunks_Cons:
  "concat (binary_chunks (f # fs)) = concat (binary_chunks [f]) @ concat (binary_chunks fs)"
  by (cases f) simp_all

lemma binary_chunks_append:
  "concat (binary_chunks (fs @ gs)) = concat (binary_chunks fs) @ concat (binary_chunks gs)"
  by (induction fs rule: binary_chunks.induct) simp_all

text \<open>Over a run the audio file grows by exactly the binary chunks, in arrival order.\<close>

lemma run_buffer:
  assumes "run e self frames w = Inr w'"
    and "files w (audio_path self) = Some a"
  shows "files w' (audio_path self) = Some (a @ concat (binary_chunks frames))"
  using assms
proof (induction frames arbitrary: w a)
  case Nil
  then show ?case by simp
next
  case (Cons f frames)
  from Cons.prems(1) obtain w1 where
    step: "websocket_receive e self f w = Inr w1" and rest: "run e self frames w1 = Inr w'"
    by (auto split: sum.splits)
  from websocket_receive_buffer [OF step Cons.prems(2)]
  have "files w1 (audio_path self) = Some (a @ concat (binary_chunks [f]))" .
  from Cons.IH [OF rest this] show ?case
    by (simp add: binary_chunks_Cons [of f frames])
qed

lemma connect_buffer:
  assumes "connect room chan path w0 = (self, w)"
  shows "files w (audio_path self) = Some []"
  using assms by (auto simp: connect_def emit_def Let_def)

lemma connect_joined:
  assumes "connect room chan path w0 = (self, w)"
  shows "channel_name self \<in> groups w (room_group_name self)"
  using assms by (auto simp: connect_def emit_def Let_def)

text \<open>What a finalize request hands to the transcription call.\<close>

lemma finalize_transcribed:
  assumes "t \<noteq> []"
    and "json_loads e t = Inr (JObject kvs)"
    and "map_of kvs ''action'' = Some (JStr ''finalize_audio'')"
    and "files w (audio_path self) = Some audio"
  shows "\<exists>w'. receive e self (Some t) None w = Inr w' \<and>
           transcribed (new_events w w') = (if key_missing e then [] else [audio])"
  using assms
  by (cases t)
     (auto simp: receive_def read_file_def get_ai_correction_def emit_def new_events_def
        split: sum.splits)

lemma run_recording:
  "run demo_env alice [BinaryFrame [26, 69], BinaryFrame [223, 163]] lobby = Inr recording"
  by (simp add: receive_def append_file_def alice_simps lobby_simps recording_def)

lemma finalize_recording:
  "receive demo_env alice (Some finalize_text) None recording =
     Inr (recording\<lparr>trace := trace recording @
       [Transcribe [26, 69, 223, 163],
        ChatCompletion (JStr ''hello there''),
        GroupSend ''chat_lobby''
          (''User (transcribed): hello there'' @ [CHR 0x0A] @ ''AI correction: Hello there!'')]\<rparr>)"
  by (simp add: receive_def read_file_def get_ai_correction_def emit_def key_missing_def
      env_simps loads_table_simps alice_simps recording_simps strip_examples
      split: list.split)
     (simp add: texts)

subsection \<open>C1: the transcription call gets the chunks in arrival order\<close>

text \<open>
  C1. For every sequence of frames received after \<^verbatim>\<open>connect\<close>, a finalize request that
  follows them returns normally, and the bytes it passes to the transcription call are the
  concatenation of the binary chunks among those frames, in arrival order.  The call is
  made once when the API key is set and not at all when it is missing.
\<close>

theorem transcribe_gets_chunks_in_order:
  assumes "connect room chan path w0 = (self, w)"
    and "run e self frames w = Inr w1"
    and "t \<noteq> []"
    and "json_loads e t = Inr (JObject kvs)"
    and "map_of kvs ''action'' = Some (JStr ''finalize_audio'')"
  shows "\<exists>w2. receive e self (Some t) None w1 = Inr w2 \<and>
           transcribed (new_events w1 w2) =
             (if key_missing e then [] else [concat (binary_chunks frames)])"
proof -
  have "files w (audio_path self) = Some []"
    using assms(1) by (rule connect_buffer)
  with assms(2) have "files w1 (audio_path self) = Some (concat (binary_chunks frames))"
    using run_buffer by fastforce
  with assms(3-5) show ?thesis
    by (rule finalize_transcribed)
qed

theorem transcribe_gets_chunks_in_order_witness:
  "connect ''lobby'' ''chan.alice'' ''/tmp/alice.webm'' bob_alone = (alice, lobby) \<and>
   run demo_env alice [BinaryFrame [26, 69], BinaryFrame [223, 163]] lobby = Inr recording \<and>
   finalize_text \<noteq> [] \<and>
   json_loads demo_env finalize_text = Inr (JObject [(''action'', JStr ''finalize_audio'')]) \<and>
   (\<exists>w2. receive demo_env alice (Some finalize_text) None recording = Inr w2 \<and>
      transcribed (new_events recording w2) = [[26, 69, 223, 163]])"
proof -
  note h = connect_alice run_recording
  have h': "finalize_text \<noteq> []"
    "json_loads demo_env finalize_text = Inr (JObject [(''action'', JStr ''finalize_audio'')])"
    "map_of [(''action'', JStr ''finalize_audio'')] ''action'' = Some (JStr ''finalize_audio'')"
    by (simp_all add: texts_nonempty env_simps loads_table_simps)
  have "\<not> key_missing demo_env"
    by (simp add: key_missing_def env_simps)
  with transcribe_gets_chunks_in_order [OF h h'] h h' show ?thesis
    by simp
qed

subsection \<open>C2: a transcript is corrected and broadcast\<close>

text \<open>
  C2. A finalize request whose transcription gives a text \<open>t\<close> that is not empty after
  stripping calls the correction backend on \<open>t\<close> and broadcasts to the room exactly one
  message, \<^verbatim>\<open>User (transcribed): <t>\<close>, a newline, \<^verbatim>\<open>AI correction: <r>\<close>, where \<open>r\<close>
  is the stripped correction when the call succeeds and \<^verbatim>\<open>AI error: \<close> followed by the
  error text when it fails.  Nothing else is sent.
\<close>

theorem finalize_broadcasts_transcript:
  assumes "t \<noteq> []"
    and "json_loads e t = Inr (JObject kvs)"
    and "map_of kvs ''action'' = Some (JStr ''finalize_audio'')"
    and "\<not> key_missing e"
    and "files w (audio_path self) = Some audio"
    and "audio_transcribe e (length (trace w)) audio = Inr text"
    and "strip text \<noteq> []"
  shows "receive e self (Some t) None w =
     Inr (w\<lparr>trace := trace w @
       [Transcribe audio,
        ChatCompletion (JStr (strip text)),
        GroupSend (room_group_name self)
          (''User (transcribed): '' @ strip text @ [CHR 0x0A] @ ''AI correction: '' @
            (case chat_completion e (Suc (length (trace w))) (JStr (strip text)) of
               Inr content \<Rightarrow> strip content
             | Inl ex \<Rightarrow> ''AI error: '' @ str ex))]\<rparr>)"
  using assms
  by (cases t)
     (simp_all add: receive_def read_file_def get_ai_correction_def emit_def
        split: sum.splits)

theorem finalize_broadcasts_transcript_witness:
  "finalize_text \<noteq> [] \<and>
   \<not> key_missing demo_env \<and>
   files recording (audio_path alice) = Some [26, 69, 223, 163] \<and>
   audio_transcribe demo_env (length (trace recording)) [26, 69, 223, 163]
     = Inr '' hello there '' \<and>
   strip '' hello there '' \<noteq> [] \<and>
   receive demo_env alice (Some finalize_text) None recording =
     Inr (recording\<lparr>trace := trace recording @
       [Transcribe [26, 69, 223, 163],
        ChatCompletion (JStr ''hello there''),
        GroupSend ''chat_lobby''
          (''User (transcribed): hello there'' @ [CHR 0x0A]
             @ ''AI correction: Hello there!'')]\<rparr>)"
proof -
  have h: "finalize_text \<noteq> []"
    "json_loads demo_env finalize_text = Inr (JObject [(''action'', JStr ''finalize_audio'')])"
    "map_of [(''action'', JStr ''finalize_audio'')] ''action'' = Some (JStr ''finalize_audio'')"
    "\<not> key_missing demo_env"
    "files recording (audio_path alice) = Some [26, 69, 223, 163]"
    "audio_transcribe demo_env (length (trace recording)) [26, 69, 223, 163]
       = Inr '' hello there ''"
    "strip '' hello there '' \<noteq> []"
    by (simp_all add: texts_nonempty env_simps loads_table_simps key_missing_def
        alice_simps recording_simps strip_examples)
  from finalize_broadcasts_transcript [OF h] show ?thesis
    using h by (simp add: env_simps alice_simps strip_examples)
qed

subsection \<open>C3: a failed transcription is reported to the sender alone\<close>

text \<open>
  C3. A finalize request on which the transcription call fails, the API key being set,
  sends exactly one frame, \<^verbatim>\<open>Transcription error: \<close> followed by the error text, to the
  requesting connection and to no other; nothing is broadcast and the correction backend
  is not called.
\<close>

theorem transcription_failure_is_private:
  assumes "t \<noteq> []"
    and "json_loads e t = Inr (JObject kvs)"
    and "map_of kvs ''action'' = Some (JStr ''finalize_audio'')"
    and "\<not> key_missing e"
    and "files w (audio_path self) = Some audio"
    and "audio_transcribe e (length (trace w)) audio = Inl ex"
  shows "receive e self (Some t) None w =
     Inr (w\<lparr>trace := trace w @
       [Transcribe audio,
        Send (channel_name self) (''Transcription error: '' @ str ex)]\<rparr>) \<and>
     (\<forall>c. frames_to w c
        [Transcribe audio, Send (channel_name self) (''Transcription error: '' @ str ex)] =
        (if c = channel_name self then [''Transcription error: '' @ str ex] else []))"
  using assms
  by (cases t)
     (simp_all add: receive_def read_file_def emit_def frames_to_def)

theorem transcription_failure_is_private_witness:
  "finalize_text \<noteq> [] \<and>
   \<not> key_missing timeout_env \<and>
   audio_transcribe timeout_env (length (trace recording)) [26, 69, 223, 163]
     = Inl (OtherException ''Timeout'' ''timeout'') \<and>
   receive timeout_env alice (Some finalize_text) None recording =
     Inr (recording\<lparr>trace := trace recording @
       [Transcribe [26, 69, 223, 163],
        Send ''chan.alice'' ''Transcription error: timeout'']\<rparr>) \<and>
   frames_to recording ''chan.alice''
     [Transcribe [26, 69, 223, 163], Send ''chan.alice'' ''Transcription error: timeout'']
     = [''Transcription error: timeout''] \<and>
   frames_to recording ''chan.bob''
     [Transcribe [26, 69, 223, 163], Send ''chan.alice'' ''Transcription error: timeout'']
     = []"
proof -
  have h: "finalize_text \<noteq> []"
    "json_loads timeout_env finalize_text
       = Inr (JObject [(''action'', JStr ''finalize_audio'')])"
    "map_of [(''action'', JStr ''finalize_audio'')] ''action'' = Some (JStr ''finalize_audio'')"
    "\<not> key_missing timeout_env"
    "files recording (audio_path alice) = Some [26, 69, 223, 163]"
    "audio_transcribe timeout_env (length (trace recording)) [26, 69, 223, 163]
       = Inl (OtherException ''Timeout'' ''timeout'')"
    by (simp_all add: texts_nonempty env_simps loads_table_simps key_missing_def
        alice_simps recording_simps)
  from transcription_failure_is_private [OF h] show ?thesis
    using h by (simp add: alice_simps)
qed

subsection \<open>C4: a plain message is corrected and broadcast\<close>

text \<open>
  C4. A text frame that is a dict with a \<^verbatim>\<open>message\<close> key \<open>m\<close>, and whose \<^verbatim>\<open>action\<close> is
  not \<^verbatim>\<open>finalize_audio\<close>, calls the correction backend on \<open>m\<close> and broadcasts the outcome
  to the room exactly once: the stripped correction, or \<^verbatim>\<open>AI error: \<close> followed by the
  error text when the call fails.  Every member of the room gets that one frame, the
  sender included, and nobody else gets anything.
\<close>

theorem message_is_broadcast:
  assumes "t \<noteq> []"
    and "json_loads e t = Inr (JObject kvs)"
    and "map_of kvs ''action'' \<noteq> Some (JStr ''finalize_audio'')"
    and "map_of kvs ''message'' = Some m"
    and "channel_name self \<in> groups w (room_group_name self)"
    and "r = (case chat_completion e (length (trace w)) m of
                Inr content \<Rightarrow> strip content
              | Inl ex \<Rightarrow> ''AI error: '' @ str ex)"
  shows "receive e self (Some t) None w =
           Inr (w\<lparr>trace := trace w @
                  [ChatCompletion m, GroupSend (room_group_name self) r]\<rparr>) \<and>
         (\<forall>c. frames_to w c [ChatCompletion m, GroupSend (room_group_name self) r] =
            (if c \<in> groups w (room_group_name self) then [r] else [])) \<and>
         frames_to w (channel_name self)
            [ChatCompletion m, GroupSend (room_group_name self) r] = [r]"
  using assms
  by (cases t)
     (simp_all add: receive_def get_ai_correction_def emit_def frames_to_def
        split: sum.splits)

theorem message_is_broadcast_witness:
  "message_text \<noteq> [] \<and>
   json_loads demo_env message_text = Inr (JObject [(''message'', JStr ''hi'')]) \<and>
   channel_name alice \<in> groups lobby (room_group_name alice) \<and>
   receive demo_env alice (Some message_text) None lobby =
     Inr (lobby\<lparr>trace := trace lobby @
            [ChatCompletion (JStr ''hi''), GroupSend ''chat_lobby'' ''Hello there!'']\<rparr>) \<and>
   frames_to lobby ''chan.alice''
     [ChatCompletion (JStr ''hi''), GroupSend ''chat_lobby'' ''Hello there!'']
     = [''Hello there!''] \<and>
   frames_to lobby ''chan.bob''
     [ChatCompletion (JStr ''hi''), GroupSend ''chat_lobby'' ''Hello there!'']
     = [''Hello there!''] \<and>
   frames_to lobby ''chan.carol''
     [ChatCompletion (JStr ''hi''), GroupSend ''chat_lobby'' ''Hello there!'']
     = []"
proof -
  have h: "message_text \<noteq> []"
    "json_loads demo_env message_text = Inr (JObject [(''message'', JStr ''hi'')])"
    "map_of [(''message'', JStr ''hi'')] ''action'' \<noteq> Some (JStr ''finalize_audio'')"
    "map_of [(''message'', JStr ''hi'')] ''message'' = Some (JStr ''hi'')"
    "channel_name alice \<in> groups lobby (room_group_name alice)"
    "''Hello there!'' = (case chat_completion demo_env (length (trace lobby)) (JStr ''hi'') of
                Inr content \<Rightarrow> strip content
              | Inl ex \<Rightarrow> ''AI error: '' @ str ex)"
    by (simp_all add: texts_nonempty env_simps loads_table_simps alice_simps lobby_simps
        strip_examples)
  from message_is_broadcast [OF h] h(1,2,5) show ?thesis
    by (simp add: alice_simps lobby_simps)
qed

subsection \<open>C5: finalize keeps the audio buffer\<close>

text \<open>
  C5, as first stated: after a finalize that ends in a broadcast the buffer is cleared,
  so the next finalize transcribes only the bytes appended since.  It fails: alice sends
  two bytes, finalizes (the room gets the broadcast), sends two more and finalizes again;
  the second transcription call gets all four bytes.
\<close>

theorem finalize_clears_buffer_counterexample:
  "trace_of (run demo_env alice
       [BinaryFrame [26, 69], TextFrame finalize_text,
        BinaryFrame [223, 163], TextFrame finalize_text] lobby) =
     Some (trace lobby @
       [Transcribe [26, 69],
        ChatCompletion (JStr ''hello there''),
        GroupSend ''chat_lobby''
          (''User (transcribed): hello there'' @ [CHR 0x0A] @ ''AI correction: Hello there!''),
        Transcribe [26, 69, 223, 163],
        ChatCompletion (JStr ''hello there''),
        GroupSend ''chat_lobby''
          (''User (transcribed): hello there'' @ [CHR 0x0A] @ ''AI correction: Hello there!'')])"
  by (simp add: receive_def append_file_def read_file_def get_ai_correction_def emit_def
      key_missing_def env_simps loads_table_simps texts_nonempty alice_simps lobby_simps
      strip_examples split: list.split)

text \<open>
  C5, amended.  A finalize, whatever its outcome, leaves the audio buffer as it is: a
  finalize that comes after an earlier one transcribes every byte appended since
  \<^verbatim>\<open>connect\<close>, those appended before the earlier finalize included, and the buffer still
  holds them afterwards.  The file is removed by \<^verbatim>\<open>disconnect\<close>.
\<close>

theorem finalize_keeps_buffer:
  assumes "connect room chan path w0 = (self, w)"
    and "t \<noteq> []"
    and "json_loads e t = Inr (JObject kvs)"
    and "map_of kvs ''action'' = Some (JStr ''finalize_audio'')"
    and "\<not> key_missing e"
    and "run e self (before @ [TextFrame t] @ after) w = Inr w1"
  shows "\<exists>w2. receive e self (Some t) None w1 = Inr w2 \<and>
           transcribed (new_events w1 w2) =
             [concat (binary_chunks before) @ concat (binary_chunks after)] \<and>
           files w2 (audio_path self) =
             Some (concat (binary_chunks before) @ concat (binary_chunks after)) \<and>
           files (disconnect self w2) (audio_path self) = None"
proof -
  have "files w (audio_path self) = Some []"
    using assms(1) by (rule connect_buffer)
  with assms(6) have buf: "files w1 (audio_path self) =
      Some (concat (binary_chunks before) @ concat (binary_chunks after))"
    using run_buffer [of e self "before @ [TextFrame t] @ after" w w1 "[]"]
    by (simp add: binary_chunks_append)
  from finalize_transcribed [OF assms(2-4) buf] assms(5) obtain w2 where
    w2: "receive e self (Some t) None w1 = Inr w2"
      "transcribed (new_events w1 w2) =
         [concat (binary_chunks before) @ concat (binary_chunks after)]"
    by auto
  from receive_text_frame [OF w2(1)] buf
  have "files w2 (audio_path self) =
      Some (concat (binary_chunks before) @ concat (binary_chunks after))"
    by simp
  moreover have "files (disconnect self w2) (audio_path self) = None"
    by (simp add: disconnect_def Let_def)
  ultimately show ?thesis using w2 by blast
qed

lemma run_two_takes:
  "run demo_env alice
     ([BinaryFrame [26, 69]] @ [TextFrame finalize_text] @ [BinaryFrame [223, 163]]) lobby =
   Inr (recording\<lparr>trace := trace lobby @
       [Transcribe [26, 69],
        ChatCompletion (JStr ''hello there''),
        GroupSend ''chat_lobby''
          (''User (transcribed): hello there'' @ [CHR 0x0A] @ ''AI correction: Hello there!'')]\<rparr>)"
  by (simp add: receive_def append_file_def read_file_def get_ai_correction_def emit_def
      key_missing_def env_simps loads_table_simps texts_nonempty alice_simps lobby_simps
      strip_examples recording_def split: list.split)

theorem finalize_keeps_buffer_witness:
  "connect ''lobby'' ''chan.alice'' ''/tmp/alice.webm'' bob_alone = (alice, lobby) \<and>
   finalize_text \<noteq> [] \<and>
   \<not> key_missing demo_env \<and>
   (\<exists>w1 w2.
      run demo_env alice
        ([BinaryFrame [26, 69]] @ [TextFrame finalize_text] @ [BinaryFrame [223, 163]]) lobby
        = Inr w1 \<and>
      receive demo_env alice (Some finalize_text) None w1 = Inr w2 \<and>
      transcribed (new_events w1 w2) = [[26, 69, 223, 163]] \<and>
      files w2 ''/tmp/alice.webm'' = Some [26, 69, 223, 163] \<and>
      files (disconnect alice w2) ''/tmp/alice.webm'' = None)"
proof -
  have h: "finalize_text \<noteq> []"
    "json_loads demo_env finalize_text = Inr (JObject [(''action'', JStr ''finalize_audio'')])"
    "map_of [(''action'', JStr ''finalize_audio'')] ''action'' = Some (JStr ''finalize_audio'')"
    "\<not> key_missing demo_env"
    by (simp_all add: texts_nonempty env_simps loads_table_simps key_missing_def)
  from finalize_keeps_buffer [OF connect_alice h run_two_takes] connect_alice h run_two_takes
  show ?thesis
    by (auto simp: alice_simps)
qed

subsection \<open>C6: a missing API key\<close>

text \<open>
  C6, as first stated: with the API key missing, a finalize request and a plain message
  alike are answered privately and nothing is broadcast.  It fails for the plain message,
  which is not checked against the key: the correction call is made, and the error it
  raises goes to the whole room, bob included.
\<close>

theorem keyless_message_private_counterexample:
  "key_missing keyless_env \<and>
   trace_of (receive keyless_env alice (Some message_text) None lobby) =
     Some (trace lobby @
       [ChatCompletion (JStr ''hi''),
        GroupSend ''chat_lobby'' ''AI error: No API key provided.'']) \<and>
   frames_to lobby ''chan.bob''
     [ChatCompletion (JStr ''hi''),
      GroupSend ''chat_lobby'' ''AI error: No API key provided.'']
     = [''AI error: No API key provided.'']"
  by (simp add: receive_def get_ai_correction_def emit_def key_missing_def frames_to_def
      env_simps loads_table_simps alice_simps lobby_simps split: list.split)
     (simp add: texts)

text \<open>
  C6, amended.  A finalize request made while the API key is missing sends exactly one
  frame, the configuration error, to the requesting connection and to no other; nothing
  is broadcast and no backend is called.
\<close>

theorem keyless_finalize_is_private:
  assumes "t \<noteq> []"
    and "json_loads e t = Inr (JObject kvs)"
    and "map_of kvs ''action'' = Some (JStr ''finalize_audio'')"
    and "key_missing e"
  shows "receive e self (Some t) None w =
           Inr (w\<lparr>trace := trace w @
                  [Send (channel_name self) ''OpenAI key not configured on server.'']\<rparr>) \<and>
         (\<forall>c. frames_to w c
                 [Send (channel_name self) ''OpenAI key not configured on server.''] =
               (if c = channel_name self
                then [''OpenAI key not configured on server.''] else []))"
  using assms
  by (cases t) (simp_all add: receive_def emit_def frames_to_def)

theorem keyless_finalize_is_private_witness:
  "finalize_text \<noteq> [] \<and>
   key_missing keyless_env \<and>
   receive keyless_env alice (Some finalize_text) None recording =
     Inr (recording\<lparr>trace := trace recording @
            [Send ''chan.alice'' ''OpenAI key not configured on server.'']\<rparr>) \<and>
   frames_to recording ''chan.alice''
     [Send ''chan.alice'' ''OpenAI key not configured on server.'']
     = [''OpenAI key not configured on server.''] \<and>
   frames_to recording ''chan.bob''
     [Send ''chan.alice'' ''OpenAI key not configured on server.''] = []"
proof -
  have h: "finalize_text \<noteq> []"
    "json_loads keyless_env finalize_text
       = Inr (JObject [(''action'', JStr ''finalize_audio'')])"
    "map_of [(''action'', JStr ''finalize_audio'')] ''action'' = Some (JStr ''finalize_audio'')"
    "key_missing keyless_env"
    by (simp_all add: texts_nonempty env_simps loads_table_simps key_missing_def)
  from keyless_finalize_is_private [where self = alice and w = recording, OF h] h(1,4)
  show ?thesis
    by (simp add: alice_simps)
qed

subsection \<open>C7: malformed text frames\<close>

text \<open>
  A text frame that does not parse, or that parses to a dict with neither a
  \<^verbatim>\<open>finalize_audio\<close> action nor a \<^verbatim>\<open>message\<close> key, is ignored: the handler returns and
  the world is as it was.
\<close>

lemma malformed_ignored:
  assumes "json_loads e t = Inl ex \<or>
     (json_loads e t = Inr (JObject kvs) \<and>
      map_of kvs ''action'' \<noteq> Some (JStr ''finalize_audio'') \<and>
      map_of kvs ''message'' = None)"
  shows "receive e self (Some t) None w = Inr w"
  using assms
  by (cases t) (auto simp: receive_def)

lemma malformed_ignored_examples:
  "receive demo_env alice (Some garbage_text) None lobby = Inr lobby"
  "receive demo_env alice (Some ping_text) None lobby = Inr lobby"
proof -
  have "json_loads demo_env garbage_text
          = Inl (JSONDecodeError ''Expecting value: line 1 column 1 (char 0)'')"
    by (simp add: env_simps loads_table_def texts garbage_text_def)
  then show "receive demo_env alice (Some garbage_text) None lobby = Inr lobby"
    using malformed_ignored by blast
  have "json_loads demo_env ping_text = Inr (JObject [(''ping'', JInt 1)])"
    by (simp add: env_simps loads_table_simps)
  then show "receive demo_env alice (Some ping_text) None lobby = Inr lobby"
    using malformed_ignored [of demo_env ping_text _ "[(''ping'', JInt 1)]"] by simp
qed

text \<open>
  C7 says that every malformed text frame is ignored and that the handler does not fail.
  This is the case it misses: a frame that parses to something other than a dict (a list,
  a string, a number, \<^verbatim>\<open>true\<close>, \<^verbatim>\<open>null\<close>) sends nothing, but \<^verbatim>\<open>data.get\<close> raises an
  \<^verbatim>\<open>AttributeError\<close> that nothing catches, and it leaves \<^verbatim>\<open>receive\<close>.
\<close>

theorem non_dict_payload_raises:
  assumes "t \<noteq> []"
    and "json_loads e t = Inr data"
    and "type_name data \<noteq> ''dict''"
  shows "receive e self (Some t) None w =
     Inl (AttributeError ([CHR 0x27] @ type_name data @ [CHR 0x27]
            @ '' object has no attribute '' @ [CHR 0x27] @ ''get'' @ [CHR 0x27]))"
  using assms
  by (cases t; cases data) (simp_all add: receive_def)

theorem non_dict_payload_raises_witness:
  "list_text \<noteq> [] \<and>
   json_loads demo_env list_text = Inr (JArray []) \<and>
   type_name (JArray []) \<noteq> ''dict'' \<and>
   receive demo_env alice (Some list_text) None lobby =
     Inl (AttributeError ([CHR 0x27] @ ''list'' @ [CHR 0x27]
            @ '' object has no attribute '' @ [CHR 0x27] @ ''get'' @ [CHR 0x27]))"
proof -
  have h: "list_text \<noteq> []"
    "json_loads demo_env list_text = Inr (JArray [])"
    "type_name (JArray []) \<noteq> ''dict''"
    by (simp_all add: texts_nonempty env_simps loads_table_simps)
  from non_dict_payload_raises [where self = alice and w = lobby, OF h] h show ?thesis
    by simp
qed

subsection \<open>C8: an empty transcript\<close>

text \<open>
  C8. A finalize request whose transcription succeeds with a text that is empty after
  stripping does nothing beyond the transcription call itself: no frame reaches any
  connection, nothing is broadcast and the correction backend is not called.
\<close>

theorem empty_transcript_is_silent:
  assumes "t \<noteq> []"
    and "json_loads e t = Inr (JObject kvs)"
    and "map_of kvs ''action'' = Some (JStr ''finalize_audio'')"
    and "\<not> key_missing e"
    and "files w (audio_path self) = Some audio"
    and "audio_transcribe e (length (trace w)) audio = Inr text"
    and "strip text = []"
  shows "receive e self (Some t) None w = Inr (w\<lparr>trace := trace w @ [Transcribe audio]\<rparr>) \<and>
         (\<forall>c. frames_to w c [Transcribe audio] = [])"
  using assms
  by (cases t) (simp_all add: receive_def read_file_def emit_def frames_to_def)

theorem empty_transcript_is_silent_witness:
  "finalize_text \<noteq> [] \<and>
   \<not> key_missing silence_env \<and>
   files lobby (audio_path alice) = Some [] \<and>
   audio_transcribe silence_env (length (trace lobby)) [] = Inr ''  '' \<and>
   strip ''  '' = [] \<and>
   receive silence_env alice (Some finalize_text) None lobby =
     Inr (lobby\<lparr>trace := trace lobby @ [Transcribe []]\<rparr>) \<and>
   frames_to lobby ''chan.alice'' [Transcribe []] = [] \<and>
   frames_to lobby ''chan.bob'' [Transcribe []] = []"
proof -
  have h: "finalize_text \<noteq> []"
    "json_loads silence_env finalize_text
       = Inr (JObject [(''action'', JStr ''finalize_audio'')])"
    "map_of [(''action'', JStr ''finalize_audio'')] ''action'' = Some (JStr ''finalize_audio'')"
    "\<not> key_missing silence_env"
    "files lobby (audio_path alice) = Some []"
    "audio_transcribe silence_env (length (trace lobby)) [] = Inr ''  ''"
    "strip ''  '' = []"
    by (simp_all add: texts_nonempty env_simps loads_table_simps key_missing_def
        alice_simps lobby_simps strip_examples)
  from empty_transcript_is_silent [OF h] h show ?thesis
    by simp
qed

subsection \<open>C9: failures of the AI calls stay inside the request\<close>

text \<open>
  C9. A failure of the transcription call or of the correction call does not leave the
  frame handler.  It becomes a string: \<^verbatim>\<open>Transcription error: \<close> followed by \<^verbatim>\<open>str(e)\<close>,
  sent to the requester, or \<^verbatim>\<open>AI error: \<close> followed by \<^verbatim>\<open>str(e)\<close>, broadcast in place of
  the correction.  The run then goes on with the frames that follow, from a world that
  differs from the one before only in its log: the audio file and the room's members are
  as they were.
\<close>

theorem ai_failures_are_contained:
  assumes "t \<noteq> []"
    and "json_loads e t = Inr (JObject kvs)"
  shows
    "(map_of kvs ''action'' = Some (JStr ''finalize_audio'') \<and> \<not> key_missing e \<and>
      files w (audio_path self) = Some audio \<and>
      audio_transcribe e (length (trace w)) audio = Inl ex
      \<longrightarrow> run e self (TextFrame t # rest) w =
            run e self rest (w\<lparr>trace := trace w @
              [Transcribe audio,
               Send (channel_name self) (''Transcription error: '' @ str ex)]\<rparr>)) \<and>
     (map_of kvs ''action'' = Some (JStr ''finalize_audio'') \<and> \<not> key_missing e \<and>
      files w (audio_path self) = Some audio \<and>
      audio_transcribe e (length (trace w)) audio = Inr heard \<and> strip heard \<noteq> [] \<and>
      chat_completion e (Suc (length (trace w))) (JStr (strip heard)) = Inl ex
      \<longrightarrow> run e self (TextFrame t # rest) w =
            run e self rest (w\<lparr>trace := trace w @
              [Transcribe audio,
               ChatCompletion (JStr (strip heard)),
               GroupSend (room_group_name self)
                 (''User (transcribed): '' @ strip heard @ [CHR 0x0A] @ ''AI correction: ''
                    @ ''AI error: '' @ str ex)]\<rparr>)) \<and>
     (map_of kvs ''action'' \<noteq> Some (JStr ''finalize_audio'') \<and>
      map_of kvs ''message'' = Some m \<and>
      chat_completion e (length (trace w)) m = Inl ex
      \<longrightarrow> run e self (TextFrame t # rest) w =
            run e self rest (w\<lparr>trace := trace w @
              [ChatCompletion m,
               GroupSend (room_group_name self) (''AI error: '' @ str ex)]\<rparr>))"
proof (intro conjI impI; elim conjE)
  assume "map_of kvs ''action'' = Some (JStr ''finalize_audio'')" "\<not> key_missing e"
    "files w (audio_path self) = Some audio"
    "audio_transcribe e (length (trace w)) audio = Inl ex"
  with assms show "run e self (TextFrame t # rest) w =
      run e self rest (w\<lparr>trace := trace w @
        [Transcribe audio, Send (channel_name self) (''Transcription error: '' @ str ex)]\<rparr>)"
    by (cases t) (simp_all add: receive_def read_file_def emit_def)
next
  assume "map_of kvs ''action'' = Some (JStr ''finalize_audio'')" "\<not> key_missing e"
    "files w (audio_path self) = Some audio"
    "audio_transcribe e (length (trace w)) audio = Inr heard" "strip heard \<noteq> []"
    "chat_completion e (Suc (length (trace w))) (JStr (strip heard)) = Inl ex"
  with assms show "run e self (TextFrame t # rest) w =
      run e self rest (w\<lparr>trace := trace w @
        [Transcribe audio,
         ChatCompletion (JStr (strip heard)),
         GroupSend (room_group_name self)
           (''User (transcribed): '' @ strip heard @ [CHR 0x0A] @ ''AI correction: ''
              @ ''AI error: '' @ str ex)]\<rparr>)"
    by (cases t) (simp_all add: receive_def read_file_def get_ai_correction_def emit_def)
next
  assume "map_of kvs ''action'' \<noteq> Some (JStr ''finalize_audio'')"
    "map_of kvs ''message'' = Some m"
    "chat_completion e (length (trace w)) m = Inl ex"
  with assms show "run e self (TextFrame t # rest) w =
      run e self rest (w\<lparr>trace := trace w @
        [ChatCompletion m, GroupSend (room_group_name self) (''AI error: '' @ str ex)]\<rparr>)"
    by (cases t) (simp_all add: receive_def get_ai_correction_def emit_def)
qed

text \<open>
  Three runs: the transcription times out and the message that follows is still corrected
  and broadcast; the correction fails after a transcription; the correction of a plain
  message fails.
\<close>

theorem ai_failures_are_contained_witness:
  "run timeout_env alice [TextFrame finalize_text, TextFrame message_text] recording =
     Inr (recording\<lparr>trace := trace recording @
       [Transcribe [26, 69, 223, 163],
        Send ''chan.alice'' ''Transcription error: timeout'',
        ChatCompletion (JStr ''hi''),
        GroupSend ''chat_lobby'' ''Hello there!'']\<rparr>) \<and>
   run overloaded_env alice [TextFrame finalize_text] recording =
     Inr (recording\<lparr>trace := trace recording @
       [Transcribe [26, 69, 223, 163],
        ChatCompletion (JStr ''hello there''),
        GroupSend ''chat_lobby''
          (''User (transcribed): hello there'' @ [CHR 0x0A]
             @ ''AI correction: AI error: overloaded'')]\<rparr>) \<and>
   run overloaded_env alice [TextFrame message_text] lobby =
     Inr (lobby\<lparr>trace := trace lobby @
       [ChatCompletion (JStr ''hi''),
        GroupSend ''chat_lobby'' ''AI error: overloaded'']\<rparr>)"
proof -
  have h: "finalize_text \<noteq> []" "message_text \<noteq> []"
    by (simp_all add: texts_nonempty)
  have p: "json_loads timeout_env finalize_text
             = Inr (JObject [(''action'', JStr ''finalize_audio'')])"
    "json_loads overloaded_env finalize_text
             = Inr (JObject [(''action'', JStr ''finalize_audio'')])"
    "json_loads overloaded_env message_text = Inr (JObject [(''message'', JStr ''hi'')])"
    by (simp_all add: env_simps loads_table_simps)
  have k: "\<not> key_missing timeout_env" "\<not> key_missing overloaded_env"
    by (simp_all add: key_missing_def env_simps)
  have next_frame:
    "run timeout_env alice [TextFrame message_text]
       (recording\<lparr>trace := trace recording @
          [Transcribe [26, 69, 223, 163],
           Send ''chan.alice'' ''Transcription error: timeout'']\<rparr>) =
     Inr (recording\<lparr>trace := trace recording @
       [Transcribe [26, 69, 223, 163],
        Send ''chan.alice'' ''Transcription error: timeout'',
        ChatCompletion (JStr ''hi''),
        GroupSend ''chat_lobby'' ''Hello there!'']\<rparr>)"
    by (simp add: receive_def get_ai_correction_def emit_def env_simps loads_table_simps
        alice_simps strip_examples split: list.split)
       (simp add: texts)
  have "run timeout_env alice [TextFrame finalize_text, TextFrame message_text] recording =
     run timeout_env alice [TextFrame message_text]
       (recording\<lparr>trace := trace recording @
          [Transcribe [26, 69, 223, 163],
           Send ''chan.alice'' ''Transcription error: timeout'']\<rparr>)"
    using ai_failures_are_contained [OF h(1) p(1), where self = alice and w = recording
        and audio = "[26, 69, 223, 163]" and ex = "OtherException ''Timeout'' ''timeout''"
        and rest = "[TextFrame message_text]"] k
    by (simp add: env_simps alice_simps recording_simps)
  moreover have "run overloaded_env alice [TextFrame finalize_text] recording =
     Inr (recording\<lparr>trace := trace recording @
       [Transcribe [26, 69, 223, 163],
        ChatCompletion (JStr ''hello there''),
        GroupSend ''chat_lobby''
          (''User (transcribed): hello there'' @ [CHR 0x0A]
             @ ''AI correction: AI error: overloaded'')]\<rparr>)"
    using ai_failures_are_contained [OF h(1) p(2), where self = alice and w = recording
        and audio = "[26, 69, 223, 163]" and heard = "'' hello there ''"
        and ex = "OtherException ''RateLimitError'' ''overloaded''" and rest = "[]"] k
    by (simp add: env_simps alice_simps recording_simps strip_examples)
  moreover have "run overloaded_env alice [TextFrame message_text] lobby =
     Inr (lobby\<lparr>trace := trace lobby @
       [ChatCompletion (JStr ''hi''),
        GroupSend ''chat_lobby'' ''AI error: overloaded'']\<rparr>)"
    using ai_failures_are_contained [OF h(2) p(3), where self = alice and w = lobby
        and m = "JStr ''hi''"
        and ex = "OtherException ''RateLimitError'' ''overloaded''" and rest = "[]"]
    by (simp add: env_simps alice_simps)
  ultimately show ?thesis
    using next_frame by simp
qed

subsection \<open>C10: the action is looked at before the message\<close>

text \<open>
  C10. A text frame that carries both the \<^verbatim>\<open>finalize_audio\<close> action and a \<^verbatim>\<open>message\<close>
  key is handled exactly as the frame with the action alone: the message plays no part,
  so it is neither corrected nor broadcast.
\<close>

theorem action_before_message:
  assumes "t \<noteq> []"
    and "json_loads e t = Inr (JObject kvs)"
    and "map_of kvs ''action'' = Some (JStr ''finalize_audio'')"
    and "map_of kvs ''message'' = Some m"
    and "t' \<noteq> []"
    and "json_loads e t' = Inr (JObject [(''action'', JStr ''finalize_audio'')])"
  shows "receive e self (Some t) None w = receive e self (Some t') None w"
  using assms
  by (cases t; cases t') (simp_all add: receive_def)

theorem action_before_message_witness:
  "both_text \<noteq> [] \<and>
   json_loads demo_env both_text =
     Inr (JObject [(''action'', JStr ''finalize_audio''), (''message'', JStr ''hi'')]) \<and>
   finalize_text \<noteq> [] \<and>
   json_loads demo_env finalize_text = Inr (JObject [(''action'', JStr ''finalize_audio'')]) \<and>
   receive demo_env alice (Some both_text) None recording =
     receive demo_env alice (Some finalize_text) None recording \<and>
   receive demo_env alice (Some both_text) None recording =
     Inr (recording\<lparr>trace := trace recording @
       [Transcribe [26, 69, 223, 163],
        ChatCompletion (JStr ''hello there''),
        GroupSend ''chat_lobby''
          (''User (transcribed): hello there'' @ [CHR 0x0A]
             @ ''AI correction: Hello there!'')]\<rparr>)"
proof -
  have h: "both_text \<noteq> []"
    "json_loads demo_env both_text =
       Inr (JObject [(''action'', JStr ''finalize_audio''), (''message'', JStr ''hi'')])"
    "map_of [(''action'', JStr ''finalize_audio''), (''message'', JStr ''hi'')] ''action''
       = Some (JStr ''finalize_audio'')"
    "map_of [(''action'', JStr ''finalize_audio''), (''message'', JStr ''hi'')] ''message''
       = Some (JStr ''hi'')"
    "finalize_text \<noteq> []"
    "json_loads demo_env finalize_text = Inr (JObject [(''action'', JStr ''finalize_audio'')])"
    by (simp_all add: texts_nonempty env_simps loads_table_simps)
  from action_before_message [where self = alice and w = recording, OF h]
  have "receive demo_env alice (Some both_text) None recording =
     receive demo_env alice (Some finalize_text) None recording" .
  with h(1,2,5,6) finalize_recording show ?thesis
    by simp
qed

end
